theory Spec2Isabelle
  imports Complex_Main
begin

section \<open>Data model\<close>

text \<open>
  The model follows \<^verbatim>\<open>qiskit_addon_sympy/statevector_simulator.py\<close>.

  Gate parameters are angles. The source receives them as Python numbers or sympy
  expressions and inserts the defaults \<^verbatim>\<open>0.0\<close> and \<^verbatim>\<open>pi/2\<close>; the model takes them
  as real numbers. A parameter list is \<open>real list option\<close>: \<open>None\<close> is Python's
  \<^verbatim>\<open>None\<close>, the value of \<^verbatim>\<open>getattr(operation, 'params', None)\<close> for an instruction
  without the attribute.
\<close>

type_synonym matrix = "complex list list"

text \<open>
  Every exception the modelled code can raise. \<open>SympySimulatorError\<close> is the
  repository's own exception class and carries its message; the source has this one
  class only, and the messages tell the raise sites apart. \<open>TypeError\<close> and
  \<open>IndexError\<close> are Python's (\<^verbatim>\<open>len(None)\<close>, a tuple index out of range);
  \<open>QuantumError\<close> and \<open>ShapeError\<close> are raised inside sympy, \<open>AttributeError\<close>
  by reading the shape of a state that is the number zero.
\<close>

datatype error =
    SympySimulatorError string
  | TypeError
  | IndexError
  | QuantumError
  | ShapeError
  | AttributeError

text \<open>
  The operator objects that \<^verbatim>\<open>get_sym_op\<close> builds, one constructor for each class it
  instantiates, holding the constructor's arguments. \<^verbatim>\<open>X\<close>, \<^verbatim>\<open>Y\<close>, \<^verbatim>\<open>Z\<close>, \<^verbatim>\<open>H\<close>,
  \<^verbatim>\<open>S\<close>, \<^verbatim>\<open>T\<close> and \<^verbatim>\<open>CNOT\<close> are sympy's aliases of \<^verbatim>\<open>XGate\<close>, \<^verbatim>\<open>YGate\<close>,
  \<^verbatim>\<open>ZGate\<close>, \<^verbatim>\<open>HadamardGate\<close>, \<^verbatim>\<open>PhaseGate\<close>, \<^verbatim>\<open>TGate\<close> and \<^verbatim>\<open>CNotGate\<close>.
  A \<open>UGateGeneric\<close> holds its label and the matrix given to \<^verbatim>\<open>set_target_matrix\<close>;
  a \<open>CGate\<close> holds its control qubits and the wrapped gate.
\<close>

datatype gate =
    IdentityGate "nat list"
  | XGate "nat list"
  | YGate "nat list"
  | ZGate "nat list"
  | HadamardGate "nat list"
  | PhaseGate "nat list"
  | SDGGate "nat list"
  | TGate "nat list"
  | TDGGate "nat list"
  | CNotGate "nat list"
  | UGateGeneric "nat list" matrix
  | CGate "nat list" gate

text \<open>
  An instruction of a circuit: \<open>params\<close> is \<open>None\<close> when the attribute is absent,
  \<open>conditional\<close> is the truth value of \<^verbatim>\<open>getattr(operation, 'conditional', None)\<close>.
\<close>

record instruction =
  name :: string
  qubits :: "nat list"
  params :: "real list option"
  conditional :: bool

record circuit =
  number_of_qubits :: nat
  instructions :: "instruction list"

section \<open>Strings\<close>

text \<open>
  \<^verbatim>\<open>str.upper\<close> on the ASCII letters, the only ones in the names the engine
  upper-cases (\<^verbatim>\<open>U\<close>, \<^verbatim>\<open>u1\<close>, \<^verbatim>\<open>u2\<close>, \<^verbatim>\<open>u3\<close>, \<^verbatim>\<open>CX\<close>, \<^verbatim>\<open>cx\<close>).
\<close>

definition upper_char :: "char \<Rightarrow> char" where
  "upper_char c =
     (let n = (of_char c :: nat)
      in if 97 \<le> n \<and> n \<le> 122 then char_of (n - 32) else c)"

definition upper :: "string \<Rightarrow> string" where
  "upper s = map upper_char s"

definition startswith :: "string \<Rightarrow> string \<Rightarrow> bool" where
  "startswith s p = (take (length p) s = p)"

section \<open>The gate classes of the source\<close>

text \<open>
  Modelled from the spec: \<^verbatim>\<open>compute_ugate_matrix\<close> of \<^verbatim>\<open>simulatortools\<close>, which is
  not among the source files. The spec gives the rows
  \<^verbatim>\<open>[cos(theta/2), -e^{i*lambda}*sin(theta/2)]\<close> and
  \<^verbatim>\<open>[e^{i*phi}*sin(theta/2), e^{i*(phi+lambda)}*cos(theta/2)]\<close>.
  \<^verbatim>\<open>get_sym_op\<close> calls it on a list of three angles only.
\<close>

definition compute_ugate_matrix :: "real list \<Rightarrow> matrix" where
  "compute_ugate_matrix parameters =
     (let theta = parameters ! 0; phi = parameters ! 1; lam = parameters ! 2
      in [[complex_of_real (cos (theta / 2)),
           - exp (\<i> * complex_of_real lam) * complex_of_real (sin (theta / 2))],
          [exp (\<i> * complex_of_real phi) * complex_of_real (sin (theta / 2)),
           exp (\<i> * complex_of_real (phi + lam)) * complex_of_real (cos (theta / 2))]])"

text \<open>
  \<^verbatim>\<open>get_target_matrix\<close>: \<open>SDGGate\<close>, \<open>TDGGate\<close> and \<open>UGateGeneric\<close> are the classes of
  the source file; the other matrices are those of sympy's gate classes. A controlled
  gate has the matrix of the gate it wraps, \<^verbatim>\<open>CNOT\<close> that of \<^verbatim>\<open>X\<close>.
\<close>

fun get_target_matrix :: "gate \<Rightarrow> matrix" where
  "get_target_matrix (IdentityGate l) = [[1, 0], [0, 1]]"
| "get_target_matrix (XGate l) = [[0, 1], [1, 0]]"
| "get_target_matrix (YGate l) = [[0, - \<i>], [\<i>, 0]]"
| "get_target_matrix (ZGate l) = [[1, 0], [0, - 1]]"
| "get_target_matrix (HadamardGate l) =
     [[complex_of_real (1 / sqrt 2), complex_of_real (1 / sqrt 2)],
      [complex_of_real (1 / sqrt 2), - complex_of_real (1 / sqrt 2)]]"
| "get_target_matrix (PhaseGate l) = [[1, 0], [0, \<i>]]"
| "get_target_matrix (SDGGate l) = [[1, 0], [0, - \<i>]]"
| "get_target_matrix (TGate l) = [[1, 0], [0, exp (\<i> * complex_of_real pi / 4)]]"
| "get_target_matrix (TDGGate l) = [[1, 0], [0, exp (- \<i> * complex_of_real pi / 4)]]"
| "get_target_matrix (CNotGate l) = [[0, 1], [1, 0]]"
| "get_target_matrix (UGateGeneric l u_mat) = u_mat"
| "get_target_matrix (CGate cs g) = get_target_matrix g"

section \<open>The Gate Factory: \<^verbatim>\<open>get_sym_op\<close>\<close>

text \<open>
  The first \<^verbatim>\<open>if\<close>/\<^verbatim>\<open>elif\<close> chain of \<^verbatim>\<open>get_sym_op\<close>. \<open>None\<close> is
  \<^verbatim>\<open>the_gate is None\<close> after the chain; \<open>Some (Inl IndexError)\<close> is a tuple index
  out of range in the \<^verbatim>\<open>CY\<close>, \<^verbatim>\<open>CZ\<close> and \<^verbatim>\<open>CCX\<close> branches.
\<close>

definition fixed_gate :: "string \<Rightarrow> nat list \<Rightarrow> (error + gate) option" where
  "fixed_gate nm qid_tuple =
     (if nm = ''ID'' then Some (Inr (IdentityGate qid_tuple))
      else if nm = ''X'' then Some (Inr (XGate qid_tuple))
      else if nm = ''Y'' then Some (Inr (YGate qid_tuple))
      else if nm = ''Z'' then Some (Inr (ZGate qid_tuple))
      else if nm = ''H'' then Some (Inr (HadamardGate qid_tuple))
      else if nm = ''S'' then Some (Inr (PhaseGate qid_tuple))
      else if nm = ''SDG'' then Some (Inr (SDGGate qid_tuple))
      else if nm = ''T'' then Some (Inr (TGate qid_tuple))
      else if nm = ''TDG'' then Some (Inr (TDGGate qid_tuple))
      else if nm = ''CX'' \<or> nm = ''CNOT'' then Some (Inr (CNotGate qid_tuple))
      else if nm = ''CY'' then
        (case qid_tuple of
           q0 # q1 # _ \<Rightarrow> Some (Inr (CGate [q0] (YGate [q1])))
         | _ \<Rightarrow> Some (Inl IndexError))
      else if nm = ''CZ'' then
        (case qid_tuple of
           q0 # q1 # _ \<Rightarrow> Some (Inr (CGate [q0] (ZGate [q1])))
         | _ \<Rightarrow> Some (Inl IndexError))
      else if nm = ''CCX'' \<or> nm = ''CCNOT'' \<or> nm = ''TOFFOLI'' then
        (case qid_tuple of
           q0 # q1 # q2 # _ \<Rightarrow> Some (Inr (CGate [q0, q1] (XGate [q2])))
         | _ \<Rightarrow> Some (Inl IndexError))
      else None)"

text \<open>
  The tail of the \<^verbatim>\<open>U\<close>/\<^verbatim>\<open>CU\<close> branch, once the parameter list has three entries.
  Both branches build \<^verbatim>\<open>UGateGeneric(*qid_tuple)\<close>; the \<^verbatim>\<open>CU\<close> branch wraps it in
  \<^verbatim>\<open>CGate(qid_tuple[0], ugate)\<close>.
\<close>

definition build_ugate :: "string \<Rightarrow> nat list \<Rightarrow> real list \<Rightarrow> error + gate" where
  "build_ugate nm qid_tuple parameters =
     (if startswith nm ''U'' then
        Inr (UGateGeneric qid_tuple (compute_ugate_matrix parameters))
      else if startswith nm ''CU'' then
        (case qid_tuple of
           [] \<Rightarrow> Inl IndexError
         | q0 # _ \<Rightarrow>
             Inr (CGate [q0] (UGateGeneric qid_tuple (compute_ugate_matrix parameters))))
      else Inl (SympySimulatorError ''Not supported''))"

text \<open>
  \<^verbatim>\<open>get_sym_op(name, qid_tuple, params)\<close>. The source binds \<^verbatim>\<open>parameters = params\<close>
  and inserts the default angles into that list object in place, so the caller's list
  changes. The model returns a pair: what the call returns or raises, and the content
  of the caller's parameter list after the call.
\<close>

definition get_sym_op ::
  "string \<Rightarrow> nat list \<Rightarrow> real list option \<Rightarrow> (error + gate) \<times> real list option" where
  "get_sym_op nm qid_tuple ps =
     (case fixed_gate nm qid_tuple of
        Some r \<Rightarrow> (r, ps)
      | None \<Rightarrow>
          if startswith nm ''U'' \<or> startswith nm ''CU'' then
            (case ps of
               None \<Rightarrow> (Inl TypeError, None)
             | Some parameters \<Rightarrow>
                 if length parameters = 1 then
                   (build_ugate nm qid_tuple (0 # 0 # parameters),
                    Some (0 # 0 # parameters))
                 else if length parameters = 2 then
                   (build_ugate nm qid_tuple (pi / 2 # parameters),
                    Some (pi / 2 # parameters))
                 else if length parameters = 3 then
                   (build_ugate nm qid_tuple parameters, Some parameters)
                 else
                   (Inl (SympySimulatorError ''U gate must carry 1, 2 or 3 parameters!''),
                    Some parameters))
          else (Inl (SympySimulatorError ''Not supported''), ps))"

section \<open>The symbolic register state\<close>

text \<open>
  The engine keeps the register state as a sympy expression and hands it to three
  library functions: \<^verbatim>\<open>Qubit\<close>, \<^verbatim>\<open>qapply\<close> and \<^verbatim>\<open>represent\<close>. They are not code of
  the repository; this section models what they compute.

  A \<open>ket\<close> is the tuple of qubit values of a \<^verbatim>\<open>Qubit\<close>, written as sympy stores it:
  the last entry is qubit 0. A state is a sum of kets with complex coefficients, a list
  of terms. sympy drops a term whose coefficient simplifies to zero; the model keeps it,
  which leaves every amplitude as it is.
\<close>

type_synonym ket = "bool list"

type_synonym statevector = "(complex \<times> ket) list"

definition Qubit :: "ket \<Rightarrow> statevector" where
  "Qubit qubit_values = [(1, qubit_values)]"

definition ket_get :: "ket \<Rightarrow> nat \<Rightarrow> bool" where
  "ket_get k t = k ! (length k - 1 - t)"

definition ket_set :: "ket \<Rightarrow> nat \<Rightarrow> bool \<Rightarrow> ket" where
  "ket_set k t b = k[length k - 1 - t := b]"

text \<open>The value of a list of bits, lowest bit first.\<close>

fun bits_value :: "bool list \<Rightarrow> nat" where
  "bits_value [] = 0"
| "bits_value (b # bs) = of_bool b + 2 * bits_value bs"

text \<open>
  The basis index of a ket: \<^verbatim>\<open>represent\<close> walks the qubit values from the last to
  the first, doubling the weight at each step.
\<close>

definition ket_index :: "ket \<Rightarrow> nat" where
  "ket_index k = bits_value (rev k)"

text \<open>
  The control and target qubits of a gate: a \<^verbatim>\<open>CNOT\<close> is controlled by the first
  entry of its label and acts on the second, a \<open>CGate\<close> acts on the targets of the gate
  it wraps, any other gate acts on its label.
\<close>

fun controls :: "gate \<Rightarrow> nat list" where
  "controls (CNotGate l) = take 1 l"
| "controls (CGate cs g) = cs"
| "controls g = []"

fun targets :: "gate \<Rightarrow> nat list" where
  "targets (IdentityGate l) = l"
| "targets (XGate l) = l"
| "targets (YGate l) = l"
| "targets (ZGate l) = l"
| "targets (HadamardGate l) = l"
| "targets (PhaseGate l) = l"
| "targets (SDGGate l) = l"
| "targets (TGate l) = l"
| "targets (TDGGate l) = l"
| "targets (CNotGate l) = take 1 (drop 1 l)"
| "targets (UGateGeneric l u_mat) = l"
| "targets (CGate cs g) = targets g"

text \<open>
  sympy checks the qubits of a gate when it builds it (no qubit twice among controls
  and targets) and when it applies it (the ket has a slot for each of them), and raises
  \<^verbatim>\<open>QuantumError\<close> otherwise. The model makes both checks when the gate is applied,
  and also rejects a gate without a target and a \<^verbatim>\<open>CNOT\<close> whose label is not a pair.
\<close>

fun label_ok :: "gate \<Rightarrow> bool" where
  "label_ok (CNotGate l) = (length l = 2)"
| "label_ok (CGate cs g) = (cs \<noteq> [] \<and> label_ok g)"
| "label_ok g = True"

definition gate_ok :: "gate \<Rightarrow> nat \<Rightarrow> bool" where
  "gate_ok g n =
     (label_ok g \<and> targets g \<noteq> [] \<and> distinct (controls g @ targets g) \<and>
      list_all (\<lambda>q. q < n) (controls g @ targets g))"

text \<open>
  The column of the target matrix that a ket selects: the values of the target qubits,
  the first target being the lowest bit.
\<close>

definition column_index :: "ket \<Rightarrow> nat list \<Rightarrow> nat" where
  "column_index k ts = bits_value (map (ket_get k) ts)"

text \<open>
  The ket of row \<open>index\<close>: target number \<open>pos\<close> gets bit \<open>pos\<close> of the row index.
\<close>

fun set_targets :: "ket \<Rightarrow> nat list \<Rightarrow> nat \<Rightarrow> nat \<Rightarrow> ket" where
  "set_targets k [] pos index = k"
| "set_targets k (t # ts) pos index =
     set_targets (ket_set k t (odd (index div 2 ^ pos))) ts (Suc pos) index"

text \<open>
  A gate applied to one ket (sympy's \<^verbatim>\<open>_apply_operator_Qubit\<close>): a ket that does not
  meet the controls is returned as it is; otherwise the selected column of the target
  matrix gives one term for each row. A column index beyond the matrix is an
  \<^verbatim>\<open>IndexError\<close>.
\<close>

definition apply_operator_Qubit :: "gate \<Rightarrow> ket \<Rightarrow> error + statevector" where
  "apply_operator_Qubit g k =
     (if \<not> gate_ok g (length k) then Inl QuantumError
      else if \<not> list_all (ket_get k) (controls g) then Inr [(1, k)]
      else
        (let target_matrix = get_target_matrix g;
             col = column_index k (targets g)
         in if \<not> list_all (\<lambda>row. col < length row) target_matrix then Inl IndexError
            else Inr (map (\<lambda>index. (target_matrix ! index ! col,
                                      set_targets k (targets g) 0 index))
                        [0..<length target_matrix])))"

text \<open>
  \<^verbatim>\<open>qapply(gate * state)\<close>: the gate is applied to the ket of each term and the
  coefficients are multiplied out. The first term that raises ends the call.
\<close>

fun qapply :: "gate \<Rightarrow> statevector \<Rightarrow> error + statevector" where
  "qapply g [] = Inr []"
| "qapply g ((c, k) # terms) =
     (case apply_operator_Qubit g k of
        Inl e \<Rightarrow> Inl e
      | Inr ts \<Rightarrow>
          (case qapply g terms of
             Inl e \<Rightarrow> Inl e
           | Inr rest \<Rightarrow> Inr (map (\<lambda>(c', k'). (c * c', k')) ts @ rest)))"

text \<open>
  \<^verbatim>\<open>represent\<close>: a ket of \<open>n\<close> qubits is the column of length \<open>2 ^ n\<close> with a one at
  its basis index; a sum of terms is the sum of their columns, and columns of different
  lengths cannot be added (\<^verbatim>\<open>ShapeError\<close>). The empty sum is the number zero, which
  has no shape: reading \<^verbatim>\<open>matrix_form.shape\<close> fails there.
\<close>

definition represent_term :: "complex \<times> ket \<Rightarrow> complex list" where
  "represent_term t =
     map (\<lambda>i. if i = ket_index (snd t) then fst t else 0) [0..<2 ^ length (snd t)]"

definition matrix_add :: "complex list \<Rightarrow> complex list \<Rightarrow> error + complex list" where
  "matrix_add u v =
     (if length u = length v then Inr (map (\<lambda>(a, b). a + b) (zip u v)) else Inl ShapeError)"

fun add_terms :: "complex list \<Rightarrow> statevector \<Rightarrow> error + complex list" where
  "add_terms acc [] = Inr acc"
| "add_terms acc (t # ts) =
     (case matrix_add acc (represent_term t) of
        Inl e \<Rightarrow> Inl e
      | Inr acc' \<Rightarrow> add_terms acc' ts)"

definition represent :: "statevector \<Rightarrow> error + complex list" where
  "represent sv =
     (case sv of
        [] \<Rightarrow> Inl AttributeError
      | t # ts \<Rightarrow> add_terms (represent_term t) ts)"

section \<open>The Register Evolution Engine: \<^verbatim>\<open>run_circuit\<close>\<close>

text \<open>
  The body of the loop over \<^verbatim>\<open>circuit.instructions\<close>. The register state is the
  field \<^verbatim>\<open>self._statevector\<close>; the model passes it in and returns it with the
  exception raised, if any. A \<^verbatim>\<open>raise\<close> comes before any assignment to the field, so
  the state returned with an error is the state passed in.

  \<open>backend\<close> is the text that \<^verbatim>\<open>self.name\<close> formats to in the message of the last
  branch. The parameter list that \<^verbatim>\<open>get_sym_op\<close> leaves behind belongs to the
  instruction and is not read again by the loop.
\<close>

definition compose :: "(error + gate) \<Rightarrow> statevector \<Rightarrow> error option \<times> statevector" where
  "compose r sv =
     (case r of
        Inl e \<Rightarrow> (Some e, sv)
      | Inr sym_op \<Rightarrow>
          (case qapply sym_op sv of
             Inl e \<Rightarrow> (Some e, sv)
           | Inr sv' \<Rightarrow> (None, sv')))"

definition process_operation ::
  "string \<Rightarrow> instruction \<Rightarrow> statevector \<Rightarrow> error option \<times> statevector" where
  "process_operation backend operation sv =
     (if conditional operation then
        (Some (SympySimulatorError
           ''conditional operations not supported in statevector simulator''), sv)
      else if name operation = ''measure'' \<or> name operation = ''reset'' then
        (Some (SympySimulatorError
           (''operation '' @ name operation @
            '' not supported by sympy statevector simulator.'')), sv)
      else if name operation = ''U'' \<or> name operation = ''u1'' \<or>
              name operation = ''u2'' \<or> name operation = ''u3'' then
        (case qubits operation of
           [] \<Rightarrow> (Some IndexError, sv)
         | qubit # _ \<Rightarrow>
             compose (fst (get_sym_op (upper (name operation)) [qubit] (params operation))) sv)
      else if name operation = ''id'' then (None, sv)
      else if name operation = ''barrier'' then (None, sv)
      else if name operation = ''CX'' \<or> name operation = ''cx'' then
        (case qubits operation of
           qubit0 # qubit1 # _ \<Rightarrow>
             compose (fst (get_sym_op (upper (name operation)) [qubit0, qubit1]
                             (params operation))) sv
         | _ \<Rightarrow> (Some IndexError, sv))
      else
        (Some (SympySimulatorError
           (backend @ '' encountered unrecognized operation '' @
            [CHR 0x22] @ name operation @ [CHR 0x22])), sv))"

text \<open>The loop: the first exception ends it.\<close>

fun run_operations ::
  "string \<Rightarrow> instruction list \<Rightarrow> statevector \<Rightarrow> error option \<times> statevector" where
  "run_operations backend [] sv = (None, sv)"
| "run_operations backend (operation # rest) sv =
     (case process_operation backend operation sv of
        (Some e, sv') \<Rightarrow> (Some e, sv')
      | (None, sv') \<Rightarrow> run_operations backend rest sv')"

text \<open>
  \<^verbatim>\<open>run_circuit\<close>: the register starts as \<^verbatim>\<open>Qubit(*tuple([0]*number_of_qubits))\<close>;
  after the loop the state is represented as a column and read entry by entry,
  \<^verbatim>\<open>[matrix_form[i, 0] for i in range(shape_n)]\<close>. The result is the
  \<^verbatim>\<open>statevector\<close> entry of the returned container.
\<close>

definition run_circuit :: "string \<Rightarrow> circuit \<Rightarrow> error + complex list" where
  "run_circuit backend circ =
     (case run_operations backend (instructions circ)
             (Qubit (replicate (number_of_qubits circ) False)) of
        (Some e, sv) \<Rightarrow> Inl e
      | (None, sv) \<Rightarrow>
          (case represent sv of
             Inl e \<Rightarrow> Inl e
           | Inr matrix_form \<Rightarrow>
               Inr (map (\<lambda>i. matrix_form ! i) [0..<length matrix_form])))"

section \<open>The amplitude of a basis state\<close>


section \<open>Facts about names\<close>

lemma upper_names:
  "upper ''U'' = ''U''" "upper ''u1'' = ''U1''" "upper ''u2'' = ''U2''"
  "upper ''u3'' = ''U3''" "upper ''CX'' = ''CX''" "upper ''cx'' = ''CX''"
  by code_simp+

lemma startswith_U: "startswith nm ''U'' \<longleftrightarrow> (\<exists>r. nm = CHR ''U'' # r)"
  by (cases nm) (simp_all add: startswith_def)

lemma startswith_CU: "startswith nm ''CU'' \<longleftrightarrow> (\<exists>r. nm = CHR ''C'' # CHR ''U'' # r)"
proof (cases nm)
  case Nil
  then show ?thesis by (simp add: startswith_def)
next
  case (Cons a r)
  then show ?thesis by (cases r) (simp_all add: startswith_def)
qed

text \<open>No name of the first chain begins with \<^verbatim>\<open>U\<close> or \<^verbatim>\<open>CU\<close>.\<close>

lemma fixed_gate_U: "startswith nm ''U'' \<Longrightarrow> fixed_gate nm qid_tuple = None"
proof (cases nm)
  case Nil
  assume "startswith nm ''U''"
  with Nil show ?thesis by (simp add: startswith_def)
next
  case (Cons a r)
  assume "startswith nm ''U''"
  with Cons show ?thesis by (simp add: startswith_def fixed_gate_def)
qed

lemma fixed_gate_CU: "startswith nm ''CU'' \<Longrightarrow> fixed_gate nm qid_tuple = None"
proof -
  assume "startswith nm ''CU''"
  then obtain r where "nm = CHR ''C'' # CHR ''U'' # r"
    unfolding startswith_CU by blast
  then show ?thesis by (simp add: fixed_gate_def)
qed


section \<open>The Gate Factory\<close>

text \<open>
  C6. \<^verbatim>\<open>get_sym_op\<close> maps the name \<^verbatim>\<open>SDG\<close> to an \<open>SDGGate\<close> and \<^verbatim>\<open>TDG\<close> to a
  \<open>TDGGate\<close>, both subclasses of sympy's one-qubit gate, whatever the parameters; the
  target matrix of the first is diag(1, -i), that of the second diag(1, e^(-i pi/4)),
  the point of the unit circle at the angle -pi/4.
\<close>

theorem get_sym_op_SDG_TDG:
  "get_sym_op ''SDG'' qid_tuple ps = (Inr (SDGGate qid_tuple), ps) \<and>
   get_target_matrix (SDGGate qid_tuple) = [[1, 0], [0, - \<i>]] \<and>
   get_sym_op ''TDG'' qid_tuple ps = (Inr (TDGGate qid_tuple), ps) \<and>
   get_target_matrix (TDGGate qid_tuple) = [[1, 0], [0, cis (- pi / 4)]]"
  by (simp add: get_sym_op_def fixed_gate_def cis_conv_exp)

text \<open>The \<^verbatim>\<open>U\<close>/\<^verbatim>\<open>CU\<close> branch on a parameter list.\<close>

lemma get_sym_op_ugate:
  assumes "startswith nm ''U'' \<or> startswith nm ''CU''"
  shows "get_sym_op nm qid_tuple (Some parameters) =
     (if length parameters = 1 then
        (build_ugate nm qid_tuple (0 # 0 # parameters), Some (0 # 0 # parameters))
      else if length parameters = 2 then
        (build_ugate nm qid_tuple (pi / 2 # parameters), Some (pi / 2 # parameters))
      else if length parameters = 3 then
        (build_ugate nm qid_tuple parameters, Some parameters)
      else (Inl (SympySimulatorError ''U gate must carry 1, 2 or 3 parameters!''),
            Some parameters))"
proof -
  have "fixed_gate nm qid_tuple = None"
    using assms fixed_gate_U fixed_gate_CU by blast
  then show ?thesis using assms by (simp add: get_sym_op_def)
qed




text \<open>
  C9. For a name that begins with \<^verbatim>\<open>U\<close> or \<^verbatim>\<open>CU\<close> and a list of one or two
  parameters, the caller's list after the call is the list with the default angles
  inserted at the front: it differs from the list passed in and has three entries. A
  second call with it takes the three-parameter branch, leaves it as it is and returns
  what the first call returned.
\<close>

theorem get_sym_op_mutates_parameters:
  assumes "startswith nm ''U'' \<or> startswith nm ''CU''"
    and "length parameters = 1 \<or> length parameters = 2"
  shows "\<exists>after.
           after = (if length parameters = 1 then 0 # 0 # parameters
                    else pi / 2 # parameters) \<and>
           snd (get_sym_op nm qid_tuple (Some parameters)) = Some after \<and>
           after \<noteq> parameters \<and> length after = 3 \<and>
           get_sym_op nm qid_tuple (Some after) = (build_ugate nm qid_tuple after, Some after) \<and>
           fst (get_sym_op nm qid_tuple (Some after)) =
             fst (get_sym_op nm qid_tuple (Some parameters))"
  using assms(2) by (auto simp: get_sym_op_ugate [OF assms(1)])

theorem get_sym_op_mutates_parameters_witness:
  "(startswith ''U1'' ''U'' \<or> startswith ''U1'' ''CU'') \<and>
   (length [pi] = 1 \<or> length [pi] = 2) \<and>
   snd (get_sym_op ''U1'' [0] (Some [pi])) = Some [0, 0, pi] \<and>
   get_sym_op ''U1'' [0] (Some [0, 0, pi]) = (build_ugate ''U1'' [0] [0, 0, pi], Some [0, 0, pi])"
proof -
  have h: "startswith ''U1'' ''U'' \<or> startswith ''U1'' ''CU''"
    by (simp add: startswith_def)
  have l: "length [pi] = 1 \<or> length [pi] = 2"
    by simp
  from get_sym_op_mutates_parameters [OF h l, of "[0]"]
  have "snd (get_sym_op ''U1'' [0] (Some [pi])) = Some [0, 0, pi] \<and>
   get_sym_op ''U1'' [0] (Some [0, 0, pi]) = (build_ugate ''U1'' [0] [0, 0, pi], Some [0, 0, pi])"
    by simp
  with h l show ?thesis by blast
qed

text \<open>
  C10. For a name that begins with \<^verbatim>\<open>U\<close> or \<^verbatim>\<open>CU\<close> and \<^verbatim>\<open>params\<close> equal to
  \<^verbatim>\<open>None\<close>, the call raises \<^verbatim>\<open>TypeError\<close> at \<^verbatim>\<open>len(parameters)\<close>, which is not a
  \<^verbatim>\<open>SympySimulatorError\<close>. The engine gets there with an instruction named \<^verbatim>\<open>U\<close>,
  \<^verbatim>\<open>u1\<close>, \<^verbatim>\<open>u2\<close> or \<^verbatim>\<open>u3\<close> that has a qubit and no \<^verbatim>\<open>params\<close> attribute.
\<close>

theorem get_sym_op_params_None:
  assumes "startswith nm ''U'' \<or> startswith nm ''CU''"
  shows "get_sym_op nm qid_tuple None = (Inl TypeError, None) \<and>
         (\<forall>m. fst (get_sym_op nm qid_tuple None) \<noteq> Inl (SympySimulatorError m)) \<and>
         (\<forall>backend operation sv.
            (name operation = ''U'' \<or> name operation = ''u1'' \<or>
             name operation = ''u2'' \<or> name operation = ''u3'') \<and>
            \<not> conditional operation \<and> qubits operation \<noteq> [] \<and> params operation = None
            \<longrightarrow> process_operation backend operation sv = (Some TypeError, sv))"
proof -
  have none: "fixed_gate n q = None \<Longrightarrow> startswith n ''U'' \<or> startswith n ''CU'' \<Longrightarrow>
      get_sym_op n q None = (Inl TypeError, None)" for n q
    by (simp add: get_sym_op_def)
  have a: "get_sym_op nm qid_tuple None = (Inl TypeError, None)"
    using none assms fixed_gate_U fixed_gate_CU by blast
  have u: "startswith ''U'' ''U''" "startswith ''U1'' ''U''" "startswith ''U2'' ''U''"
    "startswith ''U3'' ''U''"
    by (simp_all add: startswith_def)
  have b: "process_operation backend operation sv = (Some TypeError, sv)"
    if n: "name operation = ''U'' \<or> name operation = ''u1'' \<or>
             name operation = ''u2'' \<or> name operation = ''u3''"
      and c: "\<not> conditional operation" and q: "qubits operation \<noteq> []"
      and p: "params operation = None"
    for backend operation sv
  proof -
    obtain q0 qs where qq: "qubits operation = q0 # qs"
      using q by (cases "qubits operation") auto
    have up: "startswith (upper (name operation)) ''U''"
      using n u by (auto simp: upper_names)
    have "get_sym_op (upper (name operation)) [q0] None = (Inl TypeError, None)"
      using none [OF fixed_gate_U [OF up]] up by blast
    moreover have "name operation \<noteq> ''measure''" "name operation \<noteq> ''reset''"
      using n by auto
    ultimately show ?thesis
      using n c qq p by (simp add: process_operation_def compose_def)
  qed
  from a b show ?thesis by simp
qed

theorem get_sym_op_params_None_witness:
  "(startswith ''U1'' ''U'' \<or> startswith ''U1'' ''CU'') \<and>
   get_sym_op ''U1'' [0] None = (Inl TypeError, None) \<and>
   process_operation ''backend''
     \<lparr>name = ''u1'', qubits = [0], params = None, conditional = False\<rparr> (Qubit [False]) =
     (Some TypeError, Qubit [False])"
proof -
  have h: "startswith ''U1'' ''U'' \<or> startswith ''U1'' ''CU''"
    by (simp add: startswith_def)
  from get_sym_op_params_None [OF h, of "[0]"]
  have "get_sym_op ''U1'' [0] None = (Inl TypeError, None) \<and>
   process_operation ''backend''
     \<lparr>name = ''u1'', qubits = [0], params = None, conditional = False\<rparr> (Qubit [False]) =
     (Some TypeError, Qubit [False])"
    by simp
  with h show ?thesis by blast
qed

section \<open>The Register Evolution Engine\<close>


text \<open>An exception leaves the register state as it was.\<close>

lemma compose_error_state: "fst (compose r sv) = Some e \<Longrightarrow> snd (compose r sv) = sv"
  by (auto simp: compose_def split: sum.splits)

lemma process_operation_error_state:
  "fst (process_operation backend operation sv) = Some e \<Longrightarrow>
   snd (process_operation backend operation sv) = sv"
  by (auto simp: process_operation_def compose_error_state split: if_splits list.splits)

lemma run_operations_append:
  "run_operations backend (xs @ ys) sv =
     (case run_operations backend xs sv of
        (Some e, sv') \<Rightarrow> (Some e, sv')
      | (None, sv') \<Rightarrow> run_operations backend ys sv')"
proof (induction xs arbitrary: sv)
  case Nil
  then show ?case by simp
next
  case (Cons x xs)
  show ?case
  proof (cases "process_operation backend x sv")
    case (Pair r sv')
    then show ?thesis using Cons.IH by (cases r) simp_all
  qed
qed



text \<open>
  C7. Processing an instruction named \<^verbatim>\<open>id\<close> or \<^verbatim>\<open>barrier\<close> leaves the register
  state as it was, whatever the state. Unless the instruction is flagged conditional it
  raises nothing, and a circuit gives the same result, amplitude vector or error, with
  the instruction and without it.
\<close>

theorem id_barrier_state_unchanged:
  assumes "name operation = ''id'' \<or> name operation = ''barrier''"
  shows "snd (process_operation backend operation sv) = sv \<and>
         (\<not> conditional operation \<longrightarrow>
            process_operation backend operation sv = (None, sv) \<and>
            run_circuit backend \<lparr>number_of_qubits = n, instructions = pre @ operation # post\<rparr> =
            run_circuit backend \<lparr>number_of_qubits = n, instructions = pre @ post\<rparr>)"
proof -
  have a: "snd (process_operation backend operation sv') = sv'" for sv'
    using assms by (auto simp: process_operation_def)
  have b: "process_operation backend operation sv' = (None, sv')"
    if "\<not> conditional operation" for sv'
    using assms that by (auto simp: process_operation_def)
  have c: "run_operations backend (pre @ operation # post) sv0 =
           run_operations backend (pre @ post) sv0"
    if "\<not> conditional operation" for sv0
    by (simp add: run_operations_append [of backend pre] b [OF that] split: prod.splits option.splits)
  from a b c show ?thesis by (simp add: run_circuit_def)
qed

theorem id_barrier_state_unchanged_witness:
  "(name \<lparr>name = ''id'', qubits = [0], params = None, conditional = False\<rparr> = ''id'' \<or>
    name \<lparr>name = ''id'', qubits = [0], params = None, conditional = False\<rparr> = ''barrier'') \<and>
   \<not> conditional \<lparr>name = ''id'', qubits = [0], params = None, conditional = False\<rparr> \<and>
   process_operation ''backend''
     \<lparr>name = ''id'', qubits = [0], params = None, conditional = False\<rparr> (Qubit [False]) =
     (None, Qubit [False]) \<and>
   run_circuit ''backend''
     \<lparr>number_of_qubits = 1,
      instructions = [] @ \<lparr>name = ''id'', qubits = [0], params = None, conditional = False\<rparr> # []\<rparr> =
   run_circuit ''backend'' \<lparr>number_of_qubits = 1, instructions = [] @ []\<rparr>"
  using id_barrier_state_unchanged
    [of "\<lparr>name = ''id'', qubits = [0], params = None, conditional = False\<rparr>"
        "''backend''" "Qubit [False]" 1 "[]" "[]"]
  by simp

text \<open>An instruction the loop refuses at its first two tests is never passed.\<close>

lemma process_operation_unsupported:
  "conditional operation \<or> name operation = ''measure'' \<or> name operation = ''reset'' \<Longrightarrow>
   process_operation backend operation sv =
     (Some (if conditional operation then
              SympySimulatorError ''conditional operations not supported in statevector simulator''
            else SympySimulatorError
              (''operation '' @ name operation @
               '' not supported by sympy statevector simulator.'')), sv)"
  by (auto simp: process_operation_def)

lemma run_operations_passed:
  "run_operations backend xs sv = (None, sv') \<Longrightarrow> operation \<in> set xs \<Longrightarrow>
   \<not> (conditional operation \<or> name operation = ''measure'' \<or> name operation = ''reset'')"
proof (induction xs arbitrary: sv)
  case Nil
  then show ?case by simp
next
  case (Cons x xs)
  obtain r sv1 where p: "process_operation backend x sv = (r, sv1)"
    by (cases "process_operation backend x sv")
  with Cons.prems(1) have r: "r = None" and rest: "run_operations backend xs sv1 = (None, sv')"
    by (cases r; simp)+
  show ?case
  proof (cases "operation = x")
    case True
    show ?thesis
    proof
      assume "conditional operation \<or> name operation = ''measure'' \<or> name operation = ''reset''"
      from process_operation_unsupported [OF this, of backend sv] p r True
      show False by simp
    qed
  next
    case False
    with Cons.prems(2) have "operation \<in> set xs" by simp
    from Cons.IH [OF rest this] show ?thesis .
  qed
qed

text \<open>
  C3, as the code has it. A circuit that contains a \<^verbatim>\<open>measure\<close> or \<^verbatim>\<open>reset\<close>
  instruction or an instruction flagged conditional returns no amplitude vector: the
  run raises. When the instructions before such an instruction all pass, none of them is
  of that kind, and the run raises at that instruction: the error about conditional
  operations if it is flagged conditional, the error naming the operation otherwise.
\<close>

theorem run_circuit_unsupported_operation:
  assumes "operation \<in> set (instructions circ)"
    and "conditional operation \<or> name operation = ''measure'' \<or> name operation = ''reset''"
  shows "(\<exists>e. run_circuit backend circ = Inl e) \<and>
         (\<forall>pre post sv.
            instructions circ = pre @ operation # post \<and>
            run_operations backend pre (Qubit (replicate (number_of_qubits circ) False)) =
              (None, sv) \<longrightarrow>
            (\<forall>earlier \<in> set pre.
               \<not> (conditional earlier \<or> name earlier = ''measure'' \<or> name earlier = ''reset'')) \<and>
            run_circuit backend circ =
              Inl (if conditional operation then
                     SympySimulatorError
                       ''conditional operations not supported in statevector simulator''
                   else SympySimulatorError
                     (''operation '' @ name operation @
                      '' not supported by sympy statevector simulator.'')))"
proof -
  let ?sv0 = "Qubit (replicate (number_of_qubits circ) False)"
  have a: "\<exists>e. run_circuit backend circ = Inl e"
  proof (cases "run_operations backend (instructions circ) ?sv0")
    case (Pair r sv')
    show ?thesis
    proof (cases r)
      case None
      with Pair run_operations_passed [of backend "instructions circ" ?sv0 sv' operation] assms
      show ?thesis by blast
    next
      case (Some e)
      with Pair show ?thesis by (simp add: run_circuit_def)
    qed
  qed
  have b: "(\<forall>earlier \<in> set pre.
               \<not> (conditional earlier \<or> name earlier = ''measure'' \<or> name earlier = ''reset'')) \<and>
            run_circuit backend circ =
              Inl (if conditional operation then
                     SympySimulatorError
                       ''conditional operations not supported in statevector simulator''
                   else SympySimulatorError
                     (''operation '' @ name operation @
                      '' not supported by sympy statevector simulator.''))"
    if i: "instructions circ = pre @ operation # post"
      and p: "run_operations backend pre ?sv0 = (None, sv)"
    for pre post sv
  proof -
    have "run_operations backend (instructions circ) ?sv0 =
            (Some (if conditional operation then
                     SympySimulatorError
                       ''conditional operations not supported in statevector simulator''
                   else SympySimulatorError
                     (''operation '' @ name operation @
                      '' not supported by sympy statevector simulator.'')), sv)"
      unfolding i run_operations_append [of backend pre] p
      by (simp add: process_operation_unsupported [OF assms(2)])
    then show ?thesis
      using run_operations_passed [OF p] by (simp add: run_circuit_def)
  qed
  from a b show ?thesis by blast
qed

theorem run_circuit_unsupported_operation_witness:
  "\<lparr>name = ''measure'', qubits = [0], params = None, conditional = False\<rparr> \<in>
     set (instructions \<lparr>number_of_qubits = 1, instructions =
       [\<lparr>name = ''id'', qubits = [0], params = None, conditional = False\<rparr>,
        \<lparr>name = ''measure'', qubits = [0], params = None, conditional = False\<rparr>]\<rparr>) \<and>
   name \<lparr>name = ''measure'', qubits = [0], params = None, conditional = False\<rparr> = ''measure'' \<and>
   run_circuit ''backend'' \<lparr>number_of_qubits = 1, instructions =
       [\<lparr>name = ''id'', qubits = [0], params = None, conditional = False\<rparr>,
        \<lparr>name = ''measure'', qubits = [0], params = None, conditional = False\<rparr>]\<rparr> =
     Inl (SympySimulatorError ''operation measure not supported by sympy statevector simulator.'')"
proof -
  let ?m = "\<lparr>name = ''measure'', qubits = [0], params = None, conditional = False\<rparr>"
  let ?i = "\<lparr>name = ''id'', qubits = [0], params = None, conditional = False\<rparr>"
  let ?c = "\<lparr>number_of_qubits = 1, instructions = [?i, ?m]\<rparr>"
  have h1: "?m \<in> set (instructions ?c)" by simp
  have h2: "conditional ?m \<or> name ?m = ''measure'' \<or> name ?m = ''reset''" by simp
  have p: "run_operations ''backend'' [?i] (Qubit (replicate (number_of_qubits ?c) False)) =
             (None, Qubit [False])"
    by (simp add: process_operation_def)
  have s: "instructions ?c = [?i] @ ?m # []" by simp
  from run_circuit_unsupported_operation [OF h1 h2, of "''backend''"] s p
  have "run_circuit ''backend'' ?c =
     Inl (if conditional ?m then
            SympySimulatorError ''conditional operations not supported in statevector simulator''
          else SympySimulatorError
            (''operation '' @ name ?m @ '' not supported by sympy statevector simulator.''))"
    by blast
  then show ?thesis by simp
qed

text \<open>
  C3 as the spec states it has the run fail with the error for a \<^verbatim>\<open>measure\<close>,
  \<^verbatim>\<open>reset\<close> or conditional instruction whenever the circuit contains one. Here the
  circuit is \<^verbatim>\<open>h\<close> on qubit 0, then a \<^verbatim>\<open>u1\<close> flagged conditional: the loop
  raises at \<^verbatim>\<open>h\<close>, with the error about an unrecognized operation, and never
  reaches the conditional instruction.
\<close>

theorem run_circuit_conditional_after_unrecognized:
  "run_circuit ''backend'' \<lparr>number_of_qubits = 1, instructions =
       [\<lparr>name = ''h'', qubits = [0], params = None, conditional = False\<rparr>,
        \<lparr>name = ''u1'', qubits = [0], params = Some [pi], conditional = True\<rparr>]\<rparr> =
     Inl (SympySimulatorError
       (''backend encountered unrecognized operation '' @ [CHR 0x22] @ ''h'' @ [CHR 0x22])) \<and>
   run_circuit ''backend'' \<lparr>number_of_qubits = 1, instructions =
       [\<lparr>name = ''h'', qubits = [0], params = None, conditional = False\<rparr>,
        \<lparr>name = ''u1'', qubits = [0], params = Some [pi], conditional = True\<rparr>]\<rparr> \<noteq>
     Inl (SympySimulatorError
       ''conditional operations not supported in statevector simulator'')"
  by (simp add: run_circuit_def process_operation_def)


section \<open>The size of the register\<close>







section \<open>The amplitude vector\<close>











section \<open>The Bell-state circuit\<close>

text \<open>The definitions that evaluate a gate on a concrete state.\<close>

lemmas eval_defs = Qubit_def apply_operator_Qubit_def gate_ok_def ket_get_def ket_set_def
  column_index_def represent_def represent_term_def matrix_add_def ket_index_def upt_rec
  compose_def get_sym_op_def fixed_gate_def

lemma half_sqrt2: "1 / complex_of_real (sqrt 2) = complex_of_real (sqrt 2) / 2"
proof -
  have "1 / sqrt 2 = sqrt 2 / 2"
    by (simp add: real_div_sqrt field_simps)
  then have "complex_of_real (1 / sqrt 2) = complex_of_real (sqrt 2 / 2)"
    by (rule arg_cong)
  then show ?thesis by simp
qed

text \<open>
  C1 as the spec states it has the circuit \<^verbatim>\<open>H\<close> on qubit 0, \<^verbatim>\<open>CX\<close> on qubits 0 and
  1 run through \<^verbatim>\<open>run_circuit\<close> to the Bell-state vector. The loop knows no
  instruction named \<^verbatim>\<open>H\<close> or \<^verbatim>\<open>h\<close>: the run raises at the first instruction and
  returns no vector.
\<close>

theorem run_circuit_H_CX_unrecognized:
  "run_circuit ''backend'' \<lparr>number_of_qubits = 2, instructions =
       [\<lparr>name = ''H'', qubits = [0], params = None, conditional = False\<rparr>,
        \<lparr>name = ''CX'', qubits = [0, 1], params = None, conditional = False\<rparr>]\<rparr> =
     Inl (SympySimulatorError
       (''backend encountered unrecognized operation '' @ [CHR 0x22] @ ''H'' @ [CHR 0x22])) \<and>
   run_circuit ''backend'' \<lparr>number_of_qubits = 2, instructions =
       [\<lparr>name = ''h'', qubits = [0], params = None, conditional = False\<rparr>,
        \<lparr>name = ''cx'', qubits = [0, 1], params = None, conditional = False\<rparr>]\<rparr> =
     Inl (SympySimulatorError
       (''backend encountered unrecognized operation '' @ [CHR 0x22] @ ''h'' @ [CHR 0x22])) \<and>
   run_circuit ''backend'' \<lparr>number_of_qubits = 2, instructions =
       [\<lparr>name = ''H'', qubits = [0], params = None, conditional = False\<rparr>,
        \<lparr>name = ''CX'', qubits = [0, 1], params = None, conditional = False\<rparr>]\<rparr> \<noteq>
     Inr [complex_of_real (sqrt 2 / 2), 0, 0, complex_of_real (sqrt 2 / 2)]"
  by (simp add: run_circuit_def process_operation_def)

text \<open>
  C1, as the code has it. \<^verbatim>\<open>run_circuit\<close> raises the error about an unrecognized
  operation at \<^verbatim>\<open>H\<close>. The operators that \<^verbatim>\<open>get_sym_op\<close> builds for \<^verbatim>\<open>H\<close> on
  qubit 0 and for \<^verbatim>\<open>CX\<close> on qubits 0 and 1, multiplied in this order onto the ground
  state of two qubits, give the amplitude vector \<open>[sqrt 2 / 2, 0, 0, sqrt 2 / 2]\<close>.
\<close>

theorem gate_factory_H_CX_bell_state:
  "run_circuit backend \<lparr>number_of_qubits = 2, instructions =
       [\<lparr>name = ''H'', qubits = [0], params = None, conditional = False\<rparr>,
        \<lparr>name = ''CX'', qubits = [0, 1], params = None, conditional = False\<rparr>]\<rparr> =
     Inl (SympySimulatorError
       (backend @ '' encountered unrecognized operation '' @ [CHR 0x22] @ ''H'' @ [CHR 0x22])) \<and>
   (\<exists>sv1 sv2.
      compose (fst (get_sym_op ''H'' [0] None)) (Qubit (replicate 2 False)) = (None, sv1) \<and>
      compose (fst (get_sym_op ''CX'' [0, 1] None)) sv1 = (None, sv2) \<and>
      represent sv2 = Inr [complex_of_real (sqrt 2 / 2), 0, 0, complex_of_real (sqrt 2 / 2)])"
proof -
  have a: "run_circuit backend \<lparr>number_of_qubits = 2, instructions =
       [\<lparr>name = ''H'', qubits = [0], params = None, conditional = False\<rparr>,
        \<lparr>name = ''CX'', qubits = [0, 1], params = None, conditional = False\<rparr>]\<rparr> =
     Inl (SympySimulatorError
       (backend @ '' encountered unrecognized operation '' @ [CHR 0x22] @ ''H'' @ [CHR 0x22]))"
    by (simp add: run_circuit_def process_operation_def)
  let ?h = "complex_of_real (1 / sqrt 2)"
  have h: "compose (fst (get_sym_op ''H'' [0] None)) (Qubit (replicate 2 False)) =
             (None, [(?h, [False, False]), (?h, [False, True])])"
    by (simp add: eval_defs numeral_2_eq_2)
  have c: "compose (fst (get_sym_op ''CX'' [0, 1] None))
             [(?h, [False, False]), (?h, [False, True])] =
             (None, [(?h, [False, False]), (0, [False, True]), (?h, [True, True])])"
    by (simp add: eval_defs)
  have r: "represent [(?h, [False, False]), (0, [False, True]), (?h, [True, True])] =
             Inr [complex_of_real (sqrt 2 / 2), 0, 0, complex_of_real (sqrt 2 / 2)]"
    using half_sqrt2 by (simp add: eval_defs)
  from a h c r show ?thesis by blast
qed

text \<open>
  The same circuit in the gates the loop knows, \<^verbatim>\<open>u2(0, pi)\<close> on qubit 0 and
  \<^verbatim>\<open>cx\<close>, runs through \<^verbatim>\<open>run_circuit\<close> to the Bell-state vector. This uses the
  matrix of \<^verbatim>\<open>compute_ugate_matrix\<close> as the spec gives it.
\<close>

lemma u2_column:
  "compute_ugate_matrix [pi / 2, 0, pi] =
     [[complex_of_real (sqrt 2 / 2), complex_of_real (sqrt 2 / 2)],
      [complex_of_real (sqrt 2 / 2), - complex_of_real (sqrt 2 / 2)]]"
proof -
  have e: "exp (\<i> * complex_of_real pi) = - 1"
    by (simp add: mult.commute)
  have "pi / 2 / 2 = pi / 4" by simp
  then show ?thesis
    by (simp add: compute_ugate_matrix_def e cos_45 sin_45)
qed

lemma run_circuit_u2_cx_bell_state:
  "run_circuit backend \<lparr>number_of_qubits = 2, instructions =
       [\<lparr>name = ''u2'', qubits = [0], params = Some [0, pi], conditional = False\<rparr>,
        \<lparr>name = ''cx'', qubits = [0, 1], params = None, conditional = False\<rparr>]\<rparr> =
     Inr [complex_of_real (sqrt 2 / 2), 0, 0, complex_of_real (sqrt 2 / 2)]"
proof -
  let ?h = "complex_of_real (sqrt 2 / 2)"
  have u: "startswith ''U2'' ''U'' \<or> startswith ''U2'' ''CU''"
    by (simp add: startswith_def)
  have g: "fst (get_sym_op ''U2'' [0] (Some [0, pi])) =
             Inr (UGateGeneric [0] (compute_ugate_matrix [pi / 2, 0, pi]))"
    by (simp add: get_sym_op_ugate [OF u] build_ugate_def startswith_def)
  have s1: "process_operation backend
              \<lparr>name = ''u2'', qubits = [0], params = Some [0, pi], conditional = False\<rparr>
              (Qubit (replicate 2 False)) =
            (None, [(?h, [False, False]), (?h, [False, True])])"
    by (simp add: process_operation_def upper_names g u2_column compose_def Qubit_def
        apply_operator_Qubit_def gate_ok_def ket_get_def ket_set_def column_index_def
        upt_rec numeral_2_eq_2)
  have s2: "process_operation backend
              \<lparr>name = ''cx'', qubits = [0, 1], params = None, conditional = False\<rparr>
              [(?h, [False, False]), (?h, [False, True])] =
            (None, [(?h, [False, False]), (0, [False, True]), (?h, [True, True])])"
    by (simp add: process_operation_def upper_names eval_defs)
  have r: "represent [(?h, [False, False]), (0, [False, True]), (?h, [True, True])] =
             Inr [?h, 0, 0, ?h]"
    by (simp add: eval_defs)
  have ops: "run_operations backend
       [\<lparr>name = ''u2'', qubits = [0], params = Some [0, pi], conditional = False\<rparr>,
        \<lparr>name = ''cx'', qubits = [0, 1], params = None, conditional = False\<rparr>]
       (Qubit (replicate 2 False)) =
     (None, [(?h, [False, False]), (0, [False, True]), (?h, [True, True])])"
    by (simp only: run_operations.simps s1 s2 prod.case option.case)
  show ?thesis
    unfolding run_circuit_def
    by (simp only: circuit.select_convs ops prod.case option.case r sum.case map_nth)
qed

end
